theory Spec2Isabelle
  imports Main
begin

section \<open>The SELinux context executor of virt-handler\<close>

text \<open>
  This theory embeds \<^verbatim>\<open>pkg/virt-handler/selinux/context_executor.go\<close>. The Go code is
  a short sequence of calls into the operating system, the Go runtime and the SELinux
  library. Each such call is modelled by a step on an explicit world: it appends one
  event to the world's trace, and the answer of the outside is read from an environment
  whose functions see the whole world at the moment of the call, so the same call may be
  answered differently at different times.
\<close>

subsection \<open>Errors, events and the world\<close>

text \<open>
  A Go \<^verbatim>\<open>error\<close> value is represented by its message (what \<^verbatim>\<open>%v\<close> prints); the
  interface value \<^verbatim>\<open>nil\<close> is \<open>None\<close>.
\<close>

type_synonym error = string

datatype 'cmd event =
    FileLabel string "string \<times> error option"
  | NewSELinux bool "error option"
  | LockOSThread
  | UnlockOSThread
  | SetExecLabel string "error option"
  | CloseOnExec int
  | CmdRun 'cmd "error option"

text \<open>
  The world holds the calls made so far, oldest first, together with their answers, and
  the descriptor table of the process: \<open>fds w fd = None\<close> when \<open>fd\<close> is not open,
  \<open>Some b\<close> when it is open with close-on-exec flag \<open>b\<close>. The table is changed by
  \<^verbatim>\<open>syscall.CloseOnExec\<close> only; it is there to say what the descriptor hygiene does.
\<close>

record 'cmd world =
  trace :: "'cmd event list"
  fds :: "int \<rightharpoonup> bool"

text \<open>
  The environment: the process id returned by \<^verbatim>\<open>os.Getpid\<close>, and the answers of
  \<^verbatim>\<open>selinux.FileLabel\<close>, \<^verbatim>\<open>NewSELinux\<close> (a function of the same package that is
  not part of the file; of its three results the handle is dropped by the caller),
  \<^verbatim>\<open>selinux.SetExecLabel\<close> and \<^verbatim>\<open>(*exec.Cmd).Run\<close>. The type \<open>'cmd\<close> is the prepared
  command a non-nil \<^verbatim>\<open>*exec.Cmd\<close> points to; every call returns (a \<^verbatim>\<open>nil\<close> command,
  on which \<^verbatim>\<open>Run\<close> panics, is not modelled).
\<close>

record 'cmd env =
  os_Getpid :: int
  FileLabel_answer :: "'cmd world \<Rightarrow> string \<Rightarrow> string \<times> error option"
  NewSELinux_answer :: "'cmd world \<Rightarrow> bool \<times> error option"
  SetExecLabel_answer :: "'cmd world \<Rightarrow> string \<Rightarrow> error option"
  Run_answer :: "'cmd world \<Rightarrow> 'cmd \<Rightarrow> error option"

definition log_event :: "'cmd event \<Rightarrow> 'cmd world \<Rightarrow> 'cmd world" where
  "log_event e w = w\<lparr>trace := trace w @ [e]\<rparr>"

definition selinux_FileLabel ::
  "'cmd env \<Rightarrow> string \<Rightarrow> 'cmd world \<Rightarrow> (string \<times> error option) \<times> 'cmd world" where
  "selinux_FileLabel env path w =
     (let r = FileLabel_answer env w path in (r, log_event (FileLabel path r) w))"

definition NewSELinux_call :: "'cmd env \<Rightarrow> 'cmd world \<Rightarrow> (bool \<times> error option) \<times> 'cmd world" where
  "NewSELinux_call env w =
     (let r = NewSELinux_answer env w in (r, log_event (NewSELinux (fst r) (snd r)) w))"

definition selinux_SetExecLabel ::
  "'cmd env \<Rightarrow> string \<Rightarrow> 'cmd world \<Rightarrow> error option \<times> 'cmd world" where
  "selinux_SetExecLabel env label w =
     (let r = SetExecLabel_answer env w label in (r, log_event (SetExecLabel label r) w))"

definition cmd_Run :: "'cmd env \<Rightarrow> 'cmd \<Rightarrow> 'cmd world \<Rightarrow> error option \<times> 'cmd world" where
  "cmd_Run env c w = (let r = Run_answer env w c in (r, log_event (CmdRun c r) w))"

definition runtime_LockOSThread :: "'cmd world \<Rightarrow> 'cmd world" where
  "runtime_LockOSThread w = log_event LockOSThread w"

definition runtime_UnlockOSThread :: "'cmd world \<Rightarrow> 'cmd world" where
  "runtime_UnlockOSThread w = log_event UnlockOSThread w"

text \<open>
  \<^verbatim>\<open>syscall.CloseOnExec(fd)\<close> issues \<^verbatim>\<open>fcntl(fd, F_SETFD, FD_CLOEXEC)\<close> and drops the
  result: it has no return value. On an open descriptor the flag is set; on a number that
  is not open the system call fails with \<^verbatim>\<open>EBADF\<close> and nothing changes.
\<close>

definition syscall_CloseOnExec :: "int \<Rightarrow> 'cmd world \<Rightarrow> 'cmd world" where
  "syscall_CloseOnExec fd w =
     log_event (CloseOnExec fd)
       (case fds w fd of None \<Rightarrow> w | Some b \<Rightarrow> w\<lparr>fds := (fds w)(fd \<mapsto> True)\<rparr>)"

subsection \<open>Formatting\<close>

text \<open>The verb \<^verbatim>\<open>%d\<close> of \<^verbatim>\<open>fmt\<close> on an \<^verbatim>\<open>int\<close>: decimal, with a minus sign.\<close>

definition digit :: "nat \<Rightarrow> char" where
  "digit n = ''0123456789'' ! n"

fun fmt_nat :: "nat \<Rightarrow> string" where
  "fmt_nat n = (if n < 10 then [digit n] else fmt_nat (n div 10) @ [digit (n mod 10)])"

declare fmt_nat.simps [simp del]

definition fmt_d :: "int \<Rightarrow> string" where
  "fmt_d i = (if i < 0 then CHR ''-'' # fmt_nat (nat (- i)) else fmt_nat (nat i))"

text \<open>
  The four formatted strings of the file. \<open>attr_current_path\<close> is
  \<^verbatim>\<open>fmt.Sprintf("/proc/%d/attr/current", pid)\<close>; the other three are the messages of
  the \<^verbatim>\<open>fmt.Errorf\<close> calls in \<^verbatim>\<open>getLabelForPID\<close>, \<^verbatim>\<open>setDesiredContext\<close> and
  \<^verbatim>\<open>Execute\<close>, named after the error kinds of the specification.
\<close>

definition attr_current_path :: "int \<Rightarrow> string" where
  "attr_current_path pid = ''/proc/'' @ fmt_d pid @ ''/attr/current''"

definition LabelUnavailable :: "int \<Rightarrow> error \<Rightarrow> error" where
  "LabelUnavailable pid err = ''could not retrieve pid '' @ fmt_d pid @ '' selinux label: '' @ err"

definition ContextSwitchError :: "string \<Rightarrow> error \<Rightarrow> error" where
  "ContextSwitchError label err =
     ''failed to switch selinux context to '' @ label @ ''. Reason: '' @ err"

definition ChildExecutionError :: "int \<Rightarrow> error \<Rightarrow> error" where
  "ChildExecutionError pid err =
     ''failed to execute command in launcher namespace '' @ fmt_d pid @ '': '' @ err"

subsection \<open>The source\<close>

definition minFDToCloseOnExec :: int where
  "minFDToCloseOnExec = 3"

definition maxFDToCloseOnExec :: int where
  "maxFDToCloseOnExec = 256"

text \<open>
  \<^verbatim>\<open>func getLabelForPID(pid int) (string, error)\<close>. The two results of Go are a pair.
\<close>

definition getLabelForPID ::
  "'cmd env \<Rightarrow> int \<Rightarrow> 'cmd world \<Rightarrow> (string \<times> error option) \<times> 'cmd world" where
  "getLabelForPID env pid w =
     (case selinux_FileLabel env (attr_current_path pid) w of
        ((fileLabel, err), w') \<Rightarrow>
          (case err of
             Some e \<Rightarrow> (('''', Some (LabelUnavailable pid e)), w')
           | None \<Rightarrow> ((fileLabel, None), w')))"

record 'cmd ContextExecutor =
  cmdToExecute :: 'cmd
  desiredLabel :: string
  originalLabel :: string
  pid :: int

text \<open>
  \<^verbatim>\<open>func NewContextExecutor(pid int, cmd *exec.Cmd) (*ContextExecutor, error)\<close>. The
  pointer result is an option, \<open>None\<close> for \<^verbatim>\<open>nil\<close>.
\<close>

definition NewContextExecutor ::
  "'cmd env \<Rightarrow> int \<Rightarrow> 'cmd \<Rightarrow> 'cmd world \<Rightarrow>
     ('cmd ContextExecutor option \<times> error option) \<times> 'cmd world" where
  "NewContextExecutor env p cmd w =
     (case getLabelForPID env p w of
        ((desired, Some e), w1) \<Rightarrow> ((None, Some e), w1)
      | ((desired, None), w1) \<Rightarrow>
          (case getLabelForPID env (os_Getpid env) w1 of
             ((original, Some e), w2) \<Rightarrow> ((None, Some e), w2)
           | ((original, None), w2) \<Rightarrow>
               ((Some \<lparr>cmdToExecute = cmd, desiredLabel = desired,
                       originalLabel = original, pid = p\<rparr>, None), w2)))"

text \<open>\<^verbatim>\<open>func isSELinuxEnabled() bool\<close>\<close>

definition isSELinuxEnabled :: "'cmd env \<Rightarrow> 'cmd world \<Rightarrow> bool \<times> 'cmd world" where
  "isSELinuxEnabled env w =
     (case NewSELinux_call env w of
        ((selinuxEnabled, err), w') \<Rightarrow> (err = None \<and> selinuxEnabled, w'))"

text \<open>\<^verbatim>\<open>func (ce ContextExecutor) setDesiredContext() error\<close>\<close>

definition setDesiredContext ::
  "'cmd env \<Rightarrow> 'cmd ContextExecutor \<Rightarrow> 'cmd world \<Rightarrow> error option \<times> 'cmd world" where
  "setDesiredContext env ce w =
     (case selinux_SetExecLabel env (desiredLabel ce) (runtime_LockOSThread w) of
        (Some e, w') \<Rightarrow> (Some (ContextSwitchError (desiredLabel ce) e), w')
      | (None, w') \<Rightarrow> (None, w'))"

text \<open>
  \<^verbatim>\<open>func (ce ContextExecutor) resetContext() error\<close>. The deferred
  \<^verbatim>\<open>runtime.UnlockOSThread()\<close> runs after the result of \<^verbatim>\<open>selinux.SetExecLabel\<close> has
  been taken as the return value, whatever that result is.
\<close>

definition resetContext ::
  "'cmd env \<Rightarrow> 'cmd ContextExecutor \<Rightarrow> 'cmd world \<Rightarrow> error option \<times> 'cmd world" where
  "resetContext env ce w =
     (case selinux_SetExecLabel env (originalLabel ce) w of
        (r, w') \<Rightarrow> (r, runtime_UnlockOSThread w'))"

text \<open>
  \<^verbatim>\<open>func preventFDLeakOntoChild()\<close>: the loop
  \<^verbatim>\<open>for fd := minFDToCloseOnExec; fd < maxFDToCloseOnExec; fd++\<close>.
\<close>

function preventFDLeakOntoChild_loop :: "int \<Rightarrow> 'cmd world \<Rightarrow> 'cmd world" where
  "preventFDLeakOntoChild_loop fd w =
     (if fd < maxFDToCloseOnExec
      then preventFDLeakOntoChild_loop (fd + 1) (syscall_CloseOnExec fd w)
      else w)"
  by pat_completeness auto
termination
  by (relation "measure (\<lambda>(fd, w). nat (maxFDToCloseOnExec - fd))") auto

declare preventFDLeakOntoChild_loop.simps [simp del]

definition preventFDLeakOntoChild :: "'cmd world \<Rightarrow> 'cmd world" where
  "preventFDLeakOntoChild w = preventFDLeakOntoChild_loop minFDToCloseOnExec w"

text \<open>
  \<^verbatim>\<open>func (ce ContextExecutor) Execute() error\<close>. \<open>Execute_rest\<close> is the part of the body
  after the \<^verbatim>\<open>if isSELinuxEnabled()\<close> block: descriptor hygiene, then the child.

  The statement \<^verbatim>\<open>defer ce.resetContext()\<close> is reached only when
  \<^verbatim>\<open>setDesiredContext\<close> returned \<^verbatim>\<open>nil\<close>. A deferred call runs when the surrounding
  function returns, after the operand of \<^verbatim>\<open>return\<close> has been evaluated, and the values
  it returns are discarded; \<^verbatim>\<open>Execute\<close> has no named result that the deferred call
  could assign. So the result of \<open>resetContext\<close> is dropped and only its world is kept.
\<close>

definition Execute_rest ::
  "'cmd env \<Rightarrow> 'cmd ContextExecutor \<Rightarrow> 'cmd world \<Rightarrow> error option \<times> 'cmd world" where
  "Execute_rest env ce w =
     (case cmd_Run env (cmdToExecute ce) (preventFDLeakOntoChild w) of
        (Some e, w') \<Rightarrow> (Some (ChildExecutionError (pid ce) e), w')
      | (None, w') \<Rightarrow> (None, w'))"

definition Execute ::
  "'cmd env \<Rightarrow> 'cmd ContextExecutor \<Rightarrow> 'cmd world \<Rightarrow> error option \<times> 'cmd world" where
  "Execute env ce w =
     (case isSELinuxEnabled env w of
        (True, w1) \<Rightarrow>
          (case setDesiredContext env ce w1 of
             (Some err, w2) \<Rightarrow> (Some err, w2)
           | (None, w2) \<Rightarrow>
               (case Execute_rest env ce w2 of
                  (result, w3) \<Rightarrow>
                    (case resetContext env ce w3 of
                       (discarded, w4) \<Rightarrow> (result, w4))))
      | (False, w1) \<Rightarrow> Execute_rest env ce w1)"

subsection \<open>Observing a run\<close>

text \<open>The events a call added to the trace, and the label-set calls and child runs among them.\<close>

definition run_events :: "'cmd world \<Rightarrow> 'cmd world \<Rightarrow> 'cmd event list" where
  "run_events w w' = drop (length (trace w)) (trace w')"

fun label_sets :: "'cmd event list \<Rightarrow> (string \<times> error option) list" where
  "label_sets [] = []"
| "label_sets (SetExecLabel l r # es) = (l, r) # label_sets es"
| "label_sets (e # es) = label_sets es"

fun child_runs :: "'cmd event list \<Rightarrow> ('cmd \<times> error option) list" where
  "child_runs [] = []"
| "child_runs (CmdRun c r # es) = (c, r) # child_runs es"
| "child_runs (e # es) = child_runs es"

fun label_reads :: "'cmd event list \<Rightarrow> (string \<times> string \<times> error option) list" where
  "label_reads [] = []"
| "label_reads (FileLabel path r # es) = (path, r) # label_reads es"
| "label_reads (e # es) = label_reads es"

fun cloexec_calls :: "'cmd event list \<Rightarrow> int list" where
  "cloexec_calls [] = []"
| "cloexec_calls (CloseOnExec fd # es) = fd # cloexec_calls es"
| "cloexec_calls (e # es) = cloexec_calls es"

subsection \<open>Example environments\<close>

text \<open>
  A host on which the process 42 runs under the label \<open>ctx_b\<close>, the caller is process 7
  with label \<open>ctx_a\<close>, and no other process exists. The commands are argument vectors.
  Descriptors 0 to 3, 9, 255 and 256 are open, 9 already close-on-exec.
\<close>

definition ex_world :: "string list world" where
  "ex_world =
     \<lparr>trace = [],
      fds = [0 \<mapsto> False, 1 \<mapsto> False, 2 \<mapsto> False, 3 \<mapsto> False, 9 \<mapsto> True,
             255 \<mapsto> False, 256 \<mapsto> False]\<rparr>"

definition ex_FileLabel :: "string list world \<Rightarrow> string \<Rightarrow> string \<times> error option" where
  "ex_FileLabel w path =
     (if path = ''/proc/42/attr/current'' then (''ctx_b'', None)
      else if path = ''/proc/7/attr/current'' then (''ctx_a'', None)
      else ([], Some ''no such file or directory''))"

definition ex_env ::
  "bool \<times> error option \<Rightarrow> (string \<Rightarrow> error option) \<Rightarrow> error option \<Rightarrow> string list env" where
  "ex_env probe set_label run =
     \<lparr>os_Getpid = 7, FileLabel_answer = ex_FileLabel, NewSELinux_answer = (\<lambda>w. probe),
      SetExecLabel_answer = (\<lambda>w. set_label), Run_answer = (\<lambda>w c. run)\<rparr>"

definition set_ok :: "string \<Rightarrow> error option" where
  "set_ok label = None"

definition set_refused :: "string \<Rightarrow> error option" where
  "set_refused label = Some ''invalid argument''"

definition set_refused_for_ctx_a :: "string \<Rightarrow> error option" where
  "set_refused_for_ctx_a label = (if label = ''ctx_a'' then Some ''permission denied'' else None)"

definition ex_ce :: "string list \<Rightarrow> string list ContextExecutor" where
  "ex_ce argv =
     \<lparr>cmdToExecute = argv, desiredLabel = ''ctx_b'', originalLabel = ''ctx_a'', pid = 42\<rparr>"

text \<open>MAC disabled (scenario A of the specification).\<close>

definition env_disabled :: "string list env" where
  "env_disabled = ex_env (False, None) set_ok None"

text \<open>The handle of the MAC subsystem cannot be initialised.\<close>

definition env_no_selinux :: "string list env" where
  "env_no_selinux = ex_env (False, Some ''selinux is not available'') set_ok None"

text \<open>MAC enabled, the child exits with status 1 (scenario B).\<close>

definition env_child_fails :: "string list env" where
  "env_child_fails = ex_env (True, None) set_ok (Some ''exit status 1'')"

text \<open>MAC enabled, every label-set call is refused (scenario D).\<close>

definition env_switch_fails :: "string list env" where
  "env_switch_fails = ex_env (True, None) set_refused None"

text \<open>MAC enabled, the child succeeds, and setting the label back to \<open>ctx_a\<close> is refused.\<close>

definition env_restore_fails :: "string list env" where
  "env_restore_fails = ex_env (True, None) set_refused_for_ctx_a None"

text \<open>The runs of \<open>Execute\<close> in these environments, from the world \<open>ex_world\<close>.\<close>

definition run_disabled :: "error option \<times> string list world" where
  "run_disabled = Execute env_disabled (ex_ce [''/bin/true'']) ex_world"

definition run_no_selinux :: "error option \<times> string list world" where
  "run_no_selinux = Execute env_no_selinux (ex_ce [''/bin/true'']) ex_world"

definition run_child_fails :: "error option \<times> string list world" where
  "run_child_fails = Execute env_child_fails (ex_ce [''/bin/false'']) ex_world"

definition run_switch_fails :: "error option \<times> string list world" where
  "run_switch_fails = Execute env_switch_fails (ex_ce [''/bin/true'']) ex_world"

definition run_restore_fails :: "error option \<times> string list world" where
  "run_restore_fails = Execute env_restore_fails (ex_ce [''/bin/true'']) ex_world"

text \<open>MAC disabled and a child that exits with status 1.\<close>

definition env_disabled_child_fails :: "string list env" where
  "env_disabled_child_fails = ex_env (False, None) set_ok (Some ''exit status 1'')"

definition run_disabled_child_fails :: "error option \<times> string list world" where
  "run_disabled_child_fails = Execute env_disabled_child_fails (ex_ce [''/bin/false'']) ex_world"

text \<open>Constructions: for the process 42 and for a process that does not exist.\<close>

definition new_for_42 ::
  "(string list ContextExecutor option \<times> error option) \<times> string list world" where
  "new_for_42 = NewContextExecutor env_disabled 42 [''/bin/true''] ex_world"

definition new_for_99 ::
  "(string list ContextExecutor option \<times> error option) \<times> string list world" where
  "new_for_99 = NewContextExecutor env_disabled 99 [''/bin/true''] ex_world"

text \<open>
  An environment in which the label of the caller changes between two reads: the first
  read of any label file answers \<open>ctx_a\<close>, every later one \<open>ctx_c\<close>.
\<close>

definition relabel_FileLabel :: "string list world \<Rightarrow> string \<Rightarrow> string \<times> error option" where
  "relabel_FileLabel w path = (if trace w = [] then (''ctx_a'', None) else (''ctx_c'', None))"

definition env_relabel :: "string list env" where
  "env_relabel = (ex_env (False, None) set_ok None)\<lparr>FileLabel_answer := relabel_FileLabel\<rparr>"

definition new_relabel ::
  "(string list ContextExecutor option \<times> error option) \<times> string list world" where
  "new_relabel = NewContextExecutor env_relabel 7 [''/bin/true''] ex_world"

section \<open>Properties\<close>

subsection \<open>The effect of the primitive steps\<close>

lemma trace_log_event [simp]: "trace (log_event e w) = trace w @ [e]"
  by (simp add: log_event_def)

lemma fds_log_event [simp]: "fds (log_event e w) = fds w"
  by (simp add: log_event_def)

lemma trace_syscall_CloseOnExec [simp]:
  "trace (syscall_CloseOnExec fd w) = trace w @ [CloseOnExec fd]"
  by (simp add: syscall_CloseOnExec_def split: option.split)

lemma fds_syscall_CloseOnExec:
  "fds (syscall_CloseOnExec fd w) fd' =
     (if fd' = fd \<and> fds w fd \<noteq> None then Some True else fds w fd')"
  by (simp add: syscall_CloseOnExec_def split: option.split)

lemma trace_loop:
  "trace (preventFDLeakOntoChild_loop fd w) =
     trace w @ map CloseOnExec [fd..maxFDToCloseOnExec - 1]"
proof (induction fd w rule: preventFDLeakOntoChild_loop.induct)
  case (1 fd w)
  show ?case
  proof (cases "fd < maxFDToCloseOnExec")
    case True
    then have "[fd..maxFDToCloseOnExec - 1] = fd # [fd + 1..maxFDToCloseOnExec - 1]"
      by (simp add: upto_rec1)
    with True 1 show ?thesis
      by (simp add: preventFDLeakOntoChild_loop.simps [of fd w])
  next
    case False
    then show ?thesis
      by (simp add: preventFDLeakOntoChild_loop.simps [of fd w])
  qed
qed

lemma fds_loop:
  "fds (preventFDLeakOntoChild_loop fd0 w) fd =
     (if fd0 \<le> fd \<and> fd < maxFDToCloseOnExec \<and> fds w fd \<noteq> None then Some True else fds w fd)"
proof (induction fd0 w rule: preventFDLeakOntoChild_loop.induct)
  case (1 fd0 w)
  show ?case
  proof (cases "fd0 < maxFDToCloseOnExec")
    case True
    have step: "fds (preventFDLeakOntoChild_loop fd0 w) fd =
        (if fd0 + 1 \<le> fd \<and> fd < maxFDToCloseOnExec \<and> fds (syscall_CloseOnExec fd0 w) fd \<noteq> None
         then Some True else fds (syscall_CloseOnExec fd0 w) fd)"
      using True 1 by (simp add: preventFDLeakOntoChild_loop.simps [of fd0 w])
    show ?thesis
    proof (cases "fd = fd0")
      case True
      with \<open>fd0 < maxFDToCloseOnExec\<close> step show ?thesis
        by (simp add: fds_syscall_CloseOnExec)
    next
      case False
      then have "fd0 + 1 \<le> fd \<longleftrightarrow> fd0 \<le> fd" by arith
      with False step show ?thesis
        by (simp add: fds_syscall_CloseOnExec)
    qed
  next
    case False
    then show ?thesis
      by (auto simp add: preventFDLeakOntoChild_loop.simps [of fd0 w])
  qed
qed

lemma trace_preventFDLeakOntoChild:
  "trace (preventFDLeakOntoChild w) = trace w @ map CloseOnExec [3..255]"
  by (simp add: preventFDLeakOntoChild_def trace_loop minFDToCloseOnExec_def maxFDToCloseOnExec_def)

lemma fds_preventFDLeakOntoChild:
  "fds (preventFDLeakOntoChild w) fd =
     (if 3 \<le> fd \<and> fd \<le> 255 \<and> fds w fd \<noteq> None then Some True else fds w fd)"
  by (auto simp add: preventFDLeakOntoChild_def fds_loop minFDToCloseOnExec_def maxFDToCloseOnExec_def)

lemma selinux_SetExecLabel_eq:
  "selinux_SetExecLabel env l w = (r, w') \<longleftrightarrow>
     r = SetExecLabel_answer env w l \<and> w' = log_event (SetExecLabel l r) w"
  by (auto simp: selinux_SetExecLabel_def Let_def)

lemma cmd_Run_eq:
  "cmd_Run env c w = (r, w') \<longleftrightarrow> r = Run_answer env w c \<and> w' = log_event (CmdRun c r) w"
  by (auto simp: cmd_Run_def Let_def)

lemma isSELinuxEnabled_eq:
  "isSELinuxEnabled env w = (b, w') \<longleftrightarrow>
     b = (snd (NewSELinux_answer env w) = None \<and> fst (NewSELinux_answer env w)) \<and>
     w' = log_event (NewSELinux (fst (NewSELinux_answer env w)) (snd (NewSELinux_answer env w))) w"
  by (auto simp: isSELinuxEnabled_def NewSELinux_call_def Let_def split: prod.splits)

lemma Execute_rest_run:
  assumes "Execute_rest env ce w = (r, w')"
  shows "\<exists>rc. trace w' = trace w @ map CloseOnExec [3..255] @ [CmdRun (cmdToExecute ce) rc] \<and>
     r = map_option (ChildExecutionError (pid ce)) rc"
  using assms
  by (auto simp: Execute_rest_def cmd_Run_eq trace_preventFDLeakOntoChild
           split: prod.splits option.splits)

lemma setDesiredContext_run:
  assumes "setDesiredContext env ce w = (r, w')"
  shows "\<exists>rs. trace w' = trace w @ [LockOSThread, SetExecLabel (desiredLabel ce) rs] \<and>
     r = map_option (ContextSwitchError (desiredLabel ce)) rs"
  using assms
  by (auto simp: setDesiredContext_def selinux_SetExecLabel_eq runtime_LockOSThread_def
           split: prod.splits option.splits)

lemma resetContext_run:
  assumes "resetContext env ce w = (r, w')"
  shows "trace w' = trace w @ [SetExecLabel (originalLabel ce) r, UnlockOSThread]"
  using assms
  by (auto simp: resetContext_def selinux_SetExecLabel_eq runtime_UnlockOSThread_def
           split: prod.splits)

lemma Execute_shape:
  assumes "Execute env ce w = (r, w')"
  shows "(\<exists>b err rc. \<not> fst (isSELinuxEnabled env w) \<and> NewSELinux_answer env w = (b, err) \<and>
            run_events w w' =
              NewSELinux b err # map CloseOnExec [3..255] @ [CmdRun (cmdToExecute ce) rc] \<and>
            r = map_option (ChildExecutionError (pid ce)) rc)
       \<or> (\<exists>e. fst (isSELinuxEnabled env w) \<and> run_events w w' =
              [NewSELinux True None, LockOSThread, SetExecLabel (desiredLabel ce) (Some e)] \<and>
            r = Some (ContextSwitchError (desiredLabel ce) e))
       \<or> (\<exists>rc rr. fst (isSELinuxEnabled env w) \<and> run_events w w' =
              [NewSELinux True None, LockOSThread, SetExecLabel (desiredLabel ce) None]
                @ map CloseOnExec [3..255]
                @ [CmdRun (cmdToExecute ce) rc, SetExecLabel (originalLabel ce) rr, UnlockOSThread] \<and>
            r = map_option (ChildExecutionError (pid ce)) rc)"
proof -
  obtain b err where ans: "NewSELinux_answer env w = (b, err)"
    by (cases "NewSELinux_answer env w")
  obtain enabled w1 where Pair: "isSELinuxEnabled env w = (enabled, w1)"
    by (cases "isSELinuxEnabled env w")
  with ans have w1: "trace w1 = trace w @ [NewSELinux b err]"
    and en: "enabled = (err = None \<and> b)"
    by (simp_all add: isSELinuxEnabled_eq)
  show ?thesis
  proof (cases enabled)
    case False
    with Pair assms have "Execute_rest env ce w1 = (r, w')"
      by (simp add: Execute_def)
    from Execute_rest_run [OF this] w1 en False Pair ans show ?thesis
      by (auto simp: run_events_def)
  next
    case True
    with en have w1': "trace w1 = trace w @ [NewSELinux True None]"
      using w1 by simp
    from True Pair have en': "fst (isSELinuxEnabled env w)"
      by simp
    obtain rs w2 where sw: "setDesiredContext env ce w1 = (rs, w2)"
      by (cases "setDesiredContext env ce w1")
    from setDesiredContext_run [OF sw] obtain rl where
      w2: "trace w2 = trace w1 @ [LockOSThread, SetExecLabel (desiredLabel ce) rl]" and
      rs: "rs = map_option (ContextSwitchError (desiredLabel ce)) rl"
      by blast
    show ?thesis
    proof (cases rl)
      case (Some e)
      with Pair True sw rs assms have "r = rs" "w' = w2"
        by (simp_all add: Execute_def)
      with w2 w1' rs Some en' show ?thesis
        by (simp add: run_events_def)
    next
      case None
      obtain rc w3 where body: "Execute_rest env ce w2 = (rc, w3)"
        by (cases "Execute_rest env ce w2")
      obtain rr w4 where reset: "resetContext env ce w3 = (rr, w4)"
        by (cases "resetContext env ce w3")
      from Pair True sw rs None body reset assms have "r = rc" "w' = w4"
        by (simp_all add: Execute_def)
      with Execute_rest_run [OF body] resetContext_run [OF reset] w2 w1' None en' show ?thesis
        by (auto simp: run_events_def)
    qed
  qed
qed

lemma label_sets_append [simp]: "label_sets (xs @ ys) = label_sets xs @ label_sets ys"
  by (induction xs rule: label_sets.induct) simp_all

lemma child_runs_append [simp]: "child_runs (xs @ ys) = child_runs xs @ child_runs ys"
  by (induction xs rule: child_runs.induct) simp_all

lemma label_reads_append [simp]: "label_reads (xs @ ys) = label_reads xs @ label_reads ys"
  by (induction xs rule: label_reads.induct) simp_all

lemma label_sets_CloseOnExec [simp]: "label_sets (map CloseOnExec fs) = []"
  by (induction fs) simp_all

lemma child_runs_CloseOnExec [simp]: "child_runs (map CloseOnExec fs) = []"
  by (induction fs) simp_all

lemma getLabelForPID_run:
  assumes "getLabelForPID env p w = ((l, err), w')"
  shows "\<exists>l0 r. FileLabel_answer env w (attr_current_path p) = (l0, r) \<and>
     trace w' = trace w @ [FileLabel (attr_current_path p) (l0, r)] \<and>
     err = map_option (LabelUnavailable p) r \<and>
     l = (if r = None then l0 else [])"
proof -
  obtain l0 r where ans: "FileLabel_answer env w (attr_current_path p) = (l0, r)"
    by (cases "FileLabel_answer env w (attr_current_path p)")
  with assms have "trace w' = trace w @ [FileLabel (attr_current_path p) (l0, r)]"
    "err = map_option (LabelUnavailable p) r" "l = (if r = None then l0 else [])"
    by (auto simp: getLabelForPID_def selinux_FileLabel_def Let_def split: option.splits)
  with ans show ?thesis
    by blast
qed

lemma NewContextExecutor_shape:
  assumes "NewContextExecutor env p cmd w = ((ce, err), w')"
  shows "(\<exists>l e. FileLabel_answer env w (attr_current_path p) = (l, Some e) \<and>
            run_events w w' = [FileLabel (attr_current_path p) (l, Some e)] \<and>
            ce = None \<and>
            err = Some (LabelUnavailable p e))
       \<or> (\<exists>d l e. FileLabel_answer env w (attr_current_path p) = (d, None) \<and>
            run_events w w' =
              [FileLabel (attr_current_path p) (d, None),
               FileLabel (attr_current_path (os_Getpid env)) (l, Some e)] \<and>
            ce = None \<and>
            err = Some (LabelUnavailable (os_Getpid env) e))
       \<or> (\<exists>d orig. FileLabel_answer env w (attr_current_path p) = (d, None) \<and>
            run_events w w' =
              [FileLabel (attr_current_path p) (d, None),
               FileLabel (attr_current_path (os_Getpid env)) (orig, None)] \<and>
            ce = Some \<lparr>cmdToExecute = cmd, desiredLabel = d, originalLabel = orig, pid = p\<rparr> \<and>
            err = None)"
proof -
  obtain d e1 w1 where first: "getLabelForPID env p w = ((d, e1), w1)"
    by (metis surj_pair)
  from getLabelForPID_run [OF first] obtain l0 r1 where
    a1: "FileLabel_answer env w (attr_current_path p) = (l0, r1)" and
    t1: "trace w1 = trace w @ [FileLabel (attr_current_path p) (l0, r1)]" and
    e1: "e1 = map_option (LabelUnavailable p) r1" and
    d: "d = (if r1 = None then l0 else [])"
    by blast
  show ?thesis
  proof (cases r1)
    case (Some e)
    with first e1 assms have "ce = None" "err = e1" "w' = w1"
      by (simp_all add: NewContextExecutor_def)
    with Some a1 t1 e1 show ?thesis
      by (simp add: run_events_def)
  next
    case None
    obtain orig e2 w2 where second: "getLabelForPID env (os_Getpid env) w1 = ((orig, e2), w2)"
      by (metis surj_pair)
    from getLabelForPID_run [OF second] obtain l2 r2 where
      t2: "trace w2 = trace w1 @ [FileLabel (attr_current_path (os_Getpid env)) (l2, r2)]" and
      e2: "e2 = map_option (LabelUnavailable (os_Getpid env)) r2" and
      orig: "orig = (if r2 = None then l2 else [])"
      by blast
    from None e1 have e1': "e1 = None" by simp
    show ?thesis
    proof (cases r2)
      case (Some e)
      with first second e1' e2 assms have "ce = None" "err = e2" "w' = w2"
        by (simp_all add: NewContextExecutor_def)
      with Some None a1 t1 t2 e2 d show ?thesis
        by (simp add: run_events_def)
    next
      case None2: None
      with first second e1' e2 assms have
        "ce = Some \<lparr>cmdToExecute = cmd, desiredLabel = d, originalLabel = orig, pid = p\<rparr>"
        "err = None" "w' = w2"
        by (simp_all add: NewContextExecutor_def)
      with None2 None a1 t1 t2 d orig show ?thesis
        by (simp add: run_events_def)
    qed
  qed
qed

text \<open>\<open>Execute\<close> as equations, one for each of its three paths, and the descriptor table after it.\<close>

lemma Execute_rest_eq:
  "Execute_rest env ce w =
     (map_option (ChildExecutionError (pid ce))
        (Run_answer env (preventFDLeakOntoChild w) (cmdToExecute ce)),
      log_event (CmdRun (cmdToExecute ce)
          (Run_answer env (preventFDLeakOntoChild w) (cmdToExecute ce)))
        (preventFDLeakOntoChild w))"
  by (simp add: Execute_rest_def cmd_Run_def Let_def split: option.split)

lemma Execute_disabled_eq:
  assumes "NewSELinux_answer env w = (b, err)"
    and "\<not> (err = None \<and> b)"
  shows "Execute env ce w = Execute_rest env ce (log_event (NewSELinux b err) w)"
  using assms by (auto simp add: Execute_def isSELinuxEnabled_def NewSELinux_call_def Let_def)

lemma Execute_switch_failed_eq:
  assumes "NewSELinux_answer env w = (True, None)"
    and "w1 = log_event LockOSThread (log_event (NewSELinux True None) w)"
    and "SetExecLabel_answer env w1 (desiredLabel ce) = Some e"
  shows "Execute env ce w =
     (Some (ContextSwitchError (desiredLabel ce) e),
      log_event (SetExecLabel (desiredLabel ce) (Some e)) w1)"
  using assms
  by (simp add: Execute_def isSELinuxEnabled_def NewSELinux_call_def setDesiredContext_def
        selinux_SetExecLabel_def runtime_LockOSThread_def Let_def)

lemma Execute_switched_eq:
  assumes "NewSELinux_answer env w = (True, None)"
    and "w1 = log_event LockOSThread (log_event (NewSELinux True None) w)"
    and "SetExecLabel_answer env w1 (desiredLabel ce) = None"
    and "w2 = log_event (SetExecLabel (desiredLabel ce) None) w1"
    and "w3 = snd (Execute_rest env ce w2)"
  shows "Execute env ce w =
     (fst (Execute_rest env ce w2),
      log_event UnlockOSThread
        (log_event (SetExecLabel (originalLabel ce) (SetExecLabel_answer env w3 (originalLabel ce)))
           w3))"
  using assms
  by (simp add: Execute_def isSELinuxEnabled_def NewSELinux_call_def setDesiredContext_def
        selinux_SetExecLabel_def runtime_LockOSThread_def resetContext_def
        runtime_UnlockOSThread_def Let_def split: prod.splits)

lemma fds_Execute:
  assumes "Execute env ce w = (r, w')"
  shows "fds w' fd =
     (if child_runs (run_events w w') = [] then fds w fd
      else if 3 \<le> fd \<and> fd \<le> 255 \<and> fds w fd \<noteq> None then Some True else fds w fd)"
proof -
  obtain b err where ans: "NewSELinux_answer env w = (b, err)"
    by (cases "NewSELinux_answer env w")
  show ?thesis
  proof (cases "err = None \<and> b")
    case False
    from Execute_disabled_eq [OF ans False] assms
    have "w' = snd (Execute_rest env ce (log_event (NewSELinux b err) w))"
      by simp
    then show ?thesis
      by (simp add: Execute_rest_eq run_events_def trace_preventFDLeakOntoChild
            fds_preventFDLeakOntoChild del: upto_rec_numeral)
  next
    case True
    with ans have ans': "NewSELinux_answer env w = (True, None)"
      by simp
    define w1 where "w1 = log_event LockOSThread (log_event (NewSELinux True None) w)"
    show ?thesis
    proof (cases "SetExecLabel_answer env w1 (desiredLabel ce)")
      case (Some e)
      from Execute_switch_failed_eq [OF ans' w1_def Some] assms
      have "w' = log_event (SetExecLabel (desiredLabel ce) (Some e)) w1"
        by simp
      then show ?thesis
        by (simp add: w1_def run_events_def)
    next
      case None
      define w2 where "w2 = log_event (SetExecLabel (desiredLabel ce) None) w1"
      define w3 where "w3 = snd (Execute_rest env ce w2)"
      from Execute_switched_eq [OF ans' w1_def None w2_def w3_def] assms
      have "w' = log_event UnlockOSThread
        (log_event (SetExecLabel (originalLabel ce) (SetExecLabel_answer env w3 (originalLabel ce)))
           w3)"
        by simp
      then show ?thesis
        by (simp add: w3_def w2_def w1_def Execute_rest_eq run_events_def
              trace_preventFDLeakOntoChild fds_preventFDLeakOntoChild del: upto_rec_numeral)
    qed
  qed
qed

subsection \<open>The example runs, evaluated\<close>

lemma cloexec_calls_append [simp]: "cloexec_calls (xs @ ys) = cloexec_calls xs @ cloexec_calls ys"
  by (induction xs rule: cloexec_calls.induct) simp_all

lemma cloexec_calls_CloseOnExec [simp]: "cloexec_calls (map CloseOnExec fs) = fs"
  by (induction fs) simp_all

lemmas Execute_unfold =
  Execute_def isSELinuxEnabled_def NewSELinux_call_def setDesiredContext_def
  selinux_SetExecLabel_def runtime_LockOSThread_def Execute_rest_def cmd_Run_def
  resetContext_def runtime_UnlockOSThread_def Let_def

lemmas NewContextExecutor_unfold =
  NewContextExecutor_def getLabelForPID_def selinux_FileLabel_def Let_def

lemmas ex_defs =
  ex_env_def ex_ce_def ex_world_def set_ok_def set_refused_def set_refused_for_ctx_a_def
  ex_FileLabel_def

lemmas fmt_defs =
  attr_current_path_def LabelUnavailable_def ContextSwitchError_def ChildExecutionError_def
  fmt_d_def fmt_nat.simps digit_def

lemma events_run_restore_fails:
  "fst run_restore_fails = None"
  "run_events ex_world (snd run_restore_fails) =
     [NewSELinux True None, LockOSThread, SetExecLabel ''ctx_b'' None]
       @ map CloseOnExec [3..255]
       @ [CmdRun [''/bin/true''] None, SetExecLabel ''ctx_a'' (Some ''permission denied''),
          UnlockOSThread]"
  by (simp_all add: run_restore_fails_def env_restore_fails_def Execute_unfold ex_defs
        run_events_def trace_preventFDLeakOntoChild)

lemma events_run_child_fails:
  "fst run_child_fails =
     Some ''failed to execute command in launcher namespace 42: exit status 1''"
  "run_events ex_world (snd run_child_fails) =
     [NewSELinux True None, LockOSThread, SetExecLabel ''ctx_b'' None]
       @ map CloseOnExec [3..255]
       @ [CmdRun [''/bin/false''] (Some ''exit status 1''), SetExecLabel ''ctx_a'' None,
          UnlockOSThread]"
  by (simp_all add: run_child_fails_def env_child_fails_def Execute_unfold ex_defs
        run_events_def trace_preventFDLeakOntoChild fmt_defs)

lemma events_run_switch_fails:
  "fst run_switch_fails =
     Some ''failed to switch selinux context to ctx_b. Reason: invalid argument''"
  "run_events ex_world (snd run_switch_fails) =
     [NewSELinux True None, LockOSThread, SetExecLabel ''ctx_b'' (Some ''invalid argument'')]"
  by (simp_all add: run_switch_fails_def env_switch_fails_def Execute_unfold ex_defs
        run_events_def trace_preventFDLeakOntoChild fmt_defs)

lemma events_run_disabled:
  "fst run_disabled = None"
  "run_events ex_world (snd run_disabled) =
     NewSELinux False None # map CloseOnExec [3..255] @ [CmdRun [''/bin/true''] None]"
  by (simp_all add: run_disabled_def env_disabled_def Execute_unfold ex_defs
        run_events_def trace_preventFDLeakOntoChild)

lemma events_run_no_selinux:
  "fst run_no_selinux = None"
  "run_events ex_world (snd run_no_selinux) =
     NewSELinux False (Some ''selinux is not available'') # map CloseOnExec [3..255]
       @ [CmdRun [''/bin/true''] None]"
  by (simp_all add: run_no_selinux_def env_no_selinux_def Execute_unfold ex_defs
        run_events_def trace_preventFDLeakOntoChild)

lemma events_new_for_42:
  "fst new_for_42 =
     (Some \<lparr>cmdToExecute = [''/bin/true''], desiredLabel = ''ctx_b'', originalLabel = ''ctx_a'',
            pid = 42\<rparr>, None)"
  "run_events ex_world (snd new_for_42) =
     [FileLabel ''/proc/42/attr/current'' (''ctx_b'', None),
      FileLabel ''/proc/7/attr/current'' (''ctx_a'', None)]"
  by (simp_all add: new_for_42_def env_disabled_def NewContextExecutor_unfold ex_defs
        run_events_def log_event_def fmt_defs)

lemma events_new_for_99:
  "fst new_for_99 =
     (None, Some ''could not retrieve pid 99 selinux label: no such file or directory'')"
  "run_events ex_world (snd new_for_99) =
     [FileLabel ''/proc/99/attr/current'' ([], Some ''no such file or directory'')]"
  by (simp_all add: new_for_99_def env_disabled_def NewContextExecutor_unfold ex_defs
        run_events_def log_event_def fmt_defs)

lemma events_run_disabled_child_fails:
  "fst run_disabled_child_fails =
     Some ''failed to execute command in launcher namespace 42: exit status 1''"
  "run_events ex_world (snd run_disabled_child_fails) =
     NewSELinux False None # map CloseOnExec [3..255]
       @ [CmdRun [''/bin/false''] (Some ''exit status 1'')]"
  by (simp_all add: run_disabled_child_fails_def env_disabled_child_fails_def Execute_unfold
        ex_defs run_events_def trace_preventFDLeakOntoChild fmt_defs)

lemma fds_ex_world:
  "fds ex_world 2 = Some False" "fds ex_world 3 = Some False" "fds ex_world 4 = None"
  "fds ex_world 9 = Some True" "fds ex_world 256 = Some False"
  by (simp_all add: ex_world_def)

lemma fds_run_switch_fails: "fds (snd run_switch_fails) = fds ex_world"
  by (simp add: run_switch_fails_def env_switch_fails_def Execute_unfold ex_env_def ex_ce_def
        set_refused_def)

section \<open>The claims\<close>

text \<open>
  In the statements below a run of \<open>Execute\<close> is read off the events it added to the
  trace. \<open>label_sets\<close> lists its calls of \<^verbatim>\<open>selinux.SetExecLabel\<close> in order, each with
  its result; the first of them, if any, is the label switch of \<open>setDesiredContext\<close>.
  \<open>child_runs\<close> lists the calls of \<^verbatim>\<open>Run\<close> on the command.
\<close>

subsection \<open>C1: a failed restoration after a successful child\<close>

text \<open>
  C1 says that when the label switch succeeded and the child ran successfully, a failure
  to restore the original label is returned as the result of \<open>Execute\<close>. The code does
  not do that: \<^verbatim>\<open>defer ce.resetContext()\<close> drops what \<open>resetContext\<close> returns. In the
  run \<open>run_restore_fails\<close> the switch to \<open>ctx_b\<close> succeeds, the child succeeds, setting
  the label back to \<open>ctx_a\<close> fails with \<open>permission denied\<close>, and \<open>Execute\<close> returns
  \<^verbatim>\<open>nil\<close>.
\<close>

theorem restore_failure_not_returned:
  "label_sets (run_events ex_world (snd run_restore_fails)) =
     [(''ctx_b'', None), (''ctx_a'', Some ''permission denied'')] \<and>
   child_runs (run_events ex_world (snd run_restore_fails)) = [([''/bin/true''], None)] \<and>
   fst run_restore_fails = None"
  by (simp add: events_run_restore_fails)

text \<open>
  C1 as amended: for every \<open>Execute\<close> invocation in which the label switch succeeded and
  the child command ran successfully, \<open>Execute\<close> returns success (\<^verbatim>\<open>nil\<close>), whether
  or not restoring the original label fails; the restoration is the one further label-set
  call of the run, to \<open>originalLabel\<close>, and its result \<open>rr\<close> is not returned.
\<close>

theorem Execute_discards_restore_failure:
  assumes "Execute env ce w = (r, w')"
    and "label_sets (run_events w w') = (l, None) # rest"
    and "child_runs (run_events w w') = [(c, None)]"
  shows "r = None \<and> (\<exists>rr. rest = [(originalLabel ce, rr)])"
  using Execute_shape [OF assms(1)] assms(2,3) by auto

theorem Execute_discards_restore_failure_witness:
  "label_sets (run_events ex_world (snd run_restore_fails)) =
     (''ctx_b'', None) # [(''ctx_a'', Some ''permission denied'')] \<and>
   child_runs (run_events ex_world (snd run_restore_fails)) = [([''/bin/true''], None)] \<and>
   fst run_restore_fails = None \<and>
   (\<exists>rr. [(''ctx_a'', Some ''permission denied'')] = [(originalLabel (ex_ce [''/bin/true'']), rr)])"
proof -
  have run: "Execute env_restore_fails (ex_ce [''/bin/true'']) ex_world =
      (fst run_restore_fails, snd run_restore_fails)"
    by (simp add: run_restore_fails_def)
  have sets: "label_sets (run_events ex_world (snd run_restore_fails)) =
      (''ctx_b'', None) # [(''ctx_a'', Some ''permission denied'')]"
    by (simp add: events_run_restore_fails)
  have child: "child_runs (run_events ex_world (snd run_restore_fails)) = [([''/bin/true''], None)]"
    by (simp add: events_run_restore_fails)
  from Execute_discards_restore_failure [OF run sets child] sets child show ?thesis
    by simp
qed

subsection \<open>C2: one restoration attempt after a successful switch\<close>

text \<open>
  C2: for every \<open>Execute\<close> invocation in which the label switch succeeds, exactly one
  restoration attempt occurs before \<open>Execute\<close> returns, whether the child succeeds or
  fails: after the switch the run makes exactly one more label-set call, to
  \<open>originalLabel\<close>, and it comes after the one run of the child and before the thread
  is released. The result of \<open>Execute\<close> is the child's: \<^verbatim>\<open>nil\<close> when the child
  succeeded, and when the child failed its failure wrapped with the target process id.
\<close>

theorem Execute_restores_once:
  assumes "Execute env ce w = (r, w')"
    and "label_sets (run_events w w') = (l, None) # rest"
  shows "\<exists>rc rr pre.
           rest = [(originalLabel ce, rr)] \<and>
           run_events w w' =
             pre @ [CmdRun (cmdToExecute ce) rc, SetExecLabel (originalLabel ce) rr, UnlockOSThread] \<and>
           label_sets pre = [(desiredLabel ce, None)] \<and>
           child_runs pre = [] \<and>
           r = map_option (ChildExecutionError (pid ce)) rc"
proof -
  from Execute_shape [OF assms(1)] assms(2) obtain rc rr where
    evs: "run_events w w' =
      [NewSELinux True None, LockOSThread, SetExecLabel (desiredLabel ce) None]
        @ map CloseOnExec [3..255]
        @ [CmdRun (cmdToExecute ce) rc, SetExecLabel (originalLabel ce) rr, UnlockOSThread]"
    and r: "r = map_option (ChildExecutionError (pid ce)) rc"
    by auto
  let ?pre = "[NewSELinux True None, LockOSThread, SetExecLabel (desiredLabel ce) None]
        @ map CloseOnExec [3..255]"
  from evs assms(2) have "rest = [(originalLabel ce, rr)]"
    by simp
  moreover from evs have "run_events w w' =
      ?pre @ [CmdRun (cmdToExecute ce) rc, SetExecLabel (originalLabel ce) rr, UnlockOSThread]"
    by simp
  moreover have "label_sets ?pre = [(desiredLabel ce, None)]" "child_runs ?pre = []"
    by simp_all
  ultimately show ?thesis
    using r by blast
qed

text \<open>Scenario B of the specification: the child \<open>/bin/false\<close> fails, the label is set back.\<close>

theorem Execute_restores_once_witness:
  "label_sets (run_events ex_world (snd run_child_fails)) = (''ctx_b'', None) # [(''ctx_a'', None)] \<and>
   (\<exists>rc rr pre.
      [(''ctx_a'', None)] = [(originalLabel (ex_ce [''/bin/false'']), rr)] \<and>
      run_events ex_world (snd run_child_fails) =
        pre @ [CmdRun (cmdToExecute (ex_ce [''/bin/false''])) rc,
               SetExecLabel (originalLabel (ex_ce [''/bin/false''])) rr, UnlockOSThread] \<and>
      label_sets pre = [(desiredLabel (ex_ce [''/bin/false'']), None)] \<and>
      child_runs pre = [] \<and>
      fst run_child_fails = map_option (ChildExecutionError (pid (ex_ce [''/bin/false'']))) rc) \<and>
   fst run_child_fails =
     Some ''failed to execute command in launcher namespace 42: exit status 1''"
proof -
  have run: "Execute env_child_fails (ex_ce [''/bin/false'']) ex_world =
      (fst run_child_fails, snd run_child_fails)"
    by (simp add: run_child_fails_def)
  have sets: "label_sets (run_events ex_world (snd run_child_fails)) =
      (''ctx_b'', None) # [(''ctx_a'', None)]"
    by (simp add: events_run_child_fails)
  from Execute_restores_once [OF run sets] sets show ?thesis
    by (simp add: events_run_child_fails(1))
qed

subsection \<open>C3: a failed label switch\<close>

text \<open>
  C3: for every \<open>Execute\<close> invocation in which MAC is enabled and the label-set call of
  the switch fails with \<open>e\<close>, \<open>Execute\<close> returns the context switch error built from
  \<open>e\<close>, and the run consists of the probe, the thread binding and the failed label-set
  call only: the child is never started, there is no second label-set call (no
  restoration), and the thread binding is not released.
\<close>

theorem Execute_switch_failure:
  assumes "Execute env ce w = (r, w')"
    and "fst (isSELinuxEnabled env w)"
    and "label_sets (run_events w w') = (l, Some e) # rest"
  shows "r = Some (ContextSwitchError (desiredLabel ce) e) \<and>
         run_events w w' =
           [NewSELinux True None, LockOSThread, SetExecLabel (desiredLabel ce) (Some e)] \<and>
         child_runs (run_events w w') = [] \<and>
         rest = [] \<and>
         UnlockOSThread \<notin> set (run_events w w')"
  using Execute_shape [OF assms(1)] assms(2,3) by auto

text \<open>Scenario D of the specification.\<close>

theorem Execute_switch_failure_witness:
  "fst (isSELinuxEnabled env_switch_fails ex_world) \<and>
   label_sets (run_events ex_world (snd run_switch_fails)) = (''ctx_b'', Some ''invalid argument'') # [] \<and>
   fst run_switch_fails =
     Some ''failed to switch selinux context to ctx_b. Reason: invalid argument'' \<and>
   run_events ex_world (snd run_switch_fails) =
     [NewSELinux True None, LockOSThread, SetExecLabel ''ctx_b'' (Some ''invalid argument'')] \<and>
   child_runs (run_events ex_world (snd run_switch_fails)) = [] \<and>
   UnlockOSThread \<notin> set (run_events ex_world (snd run_switch_fails))"
proof -
  have run: "Execute env_switch_fails (ex_ce [''/bin/true'']) ex_world =
      (fst run_switch_fails, snd run_switch_fails)"
    by (simp add: run_switch_fails_def)
  have en: "fst (isSELinuxEnabled env_switch_fails ex_world)"
    by (simp add: isSELinuxEnabled_def NewSELinux_call_def env_switch_fails_def ex_env_def)
  have sets: "label_sets (run_events ex_world (snd run_switch_fails)) =
      (''ctx_b'', Some ''invalid argument'') # []"
    by (simp add: events_run_switch_fails)
  from Execute_switch_failure [OF run en sets] en sets show ?thesis
    by (simp add: ex_ce_def ContextSwitchError_def)
qed

subsection \<open>C4: MAC disabled\<close>

text \<open>
  C4: for every \<open>Execute\<close> invocation in which the availability probe reports MAC
  disabled, the run is the probe, the close-on-exec marking of the descriptors 3 to 255,
  and the run of the child: there is no label-set call, neither switch nor restore. The
  child is started in the world \<open>w_run\<close>, in which the descriptor hygiene has been
  applied to the descriptor table, and \<open>Execute\<close> ends in that world with the run of the
  child added. Its result is the answer \<open>rc\<close> of \<^verbatim>\<open>Run\<close> there: success when the
  child succeeds, the child's failure wrapped with the process id otherwise.
\<close>

theorem Execute_disabled:
  assumes "Execute env ce w = (r, w')"
    and "\<not> fst (isSELinuxEnabled env w)"
    and "NewSELinux_answer env w = (b, err)"
    and "w_run = preventFDLeakOntoChild (log_event (NewSELinux b err) w)"
    and "rc = Run_answer env w_run (cmdToExecute ce)"
  shows "run_events w w' =
           NewSELinux b err # map CloseOnExec [3..255] @ [CmdRun (cmdToExecute ce) rc] \<and>
         label_sets (run_events w w') = [] \<and>
         (\<forall>fd. fds w_run fd =
            (if 3 \<le> fd \<and> fd \<le> 255 \<and> fds w fd \<noteq> None then Some True else fds w fd)) \<and>
         w' = log_event (CmdRun (cmdToExecute ce) rc) w_run \<and>
         fds w' = fds w_run \<and>
         r = map_option (ChildExecutionError (pid ce)) rc"
proof -
  from assms(2,3) have off: "\<not> (err = None \<and> b)"
    by (simp add: isSELinuxEnabled_def NewSELinux_call_def)
  from Execute_disabled_eq [OF assms(3) off, of ce] assms(1,4,5)
  have r: "r = map_option (ChildExecutionError (pid ce)) rc"
    and w': "w' = log_event (CmdRun (cmdToExecute ce) rc) w_run"
    by (simp_all add: Execute_rest_eq)
  from w' assms(4) have "run_events w w' =
      NewSELinux b err # map CloseOnExec [3..255] @ [CmdRun (cmdToExecute ce) rc]"
    by (simp add: run_events_def trace_preventFDLeakOntoChild del: upto_rec_numeral)
  moreover from assms(4) have "\<forall>fd. fds w_run fd =
      (if 3 \<le> fd \<and> fd \<le> 255 \<and> fds w fd \<noteq> None then Some True else fds w fd)"
    by (simp add: fds_preventFDLeakOntoChild)
  moreover from w' have "fds w' = fds w_run"
    by simp
  ultimately show ?thesis
    using r w' by simp
qed

text \<open>
  MAC disabled and a child that fails: its failure is the result, and the open
  descriptor 3 has been marked. Then scenario A of the specification: the child succeeds.
\<close>

theorem Execute_disabled_witness:
  "\<not> fst (isSELinuxEnabled env_disabled_child_fails ex_world) \<and>
   NewSELinux_answer env_disabled_child_fails ex_world = (False, None) \<and>
   Run_answer env_disabled_child_fails
     (preventFDLeakOntoChild (log_event (NewSELinux False None) ex_world))
     (cmdToExecute (ex_ce [''/bin/false''])) = Some ''exit status 1'' \<and>
   run_events ex_world (snd run_disabled_child_fails) =
     NewSELinux False None # map CloseOnExec [3..255]
       @ [CmdRun (cmdToExecute (ex_ce [''/bin/false''])) (Some ''exit status 1'')] \<and>
   label_sets (run_events ex_world (snd run_disabled_child_fails)) = [] \<and>
   fds (snd run_disabled_child_fails) 2 = Some False \<and>
   fds (snd run_disabled_child_fails) 3 = Some True \<and>
   fds (snd run_disabled_child_fails) 4 = None \<and>
   fds (snd run_disabled_child_fails) 256 = Some False \<and>
   fst run_disabled_child_fails =
     Some ''failed to execute command in launcher namespace 42: exit status 1'' \<and>
   \<not> fst (isSELinuxEnabled env_disabled ex_world) \<and>
   Run_answer env_disabled
     (preventFDLeakOntoChild (log_event (NewSELinux False None) ex_world))
     (cmdToExecute (ex_ce [''/bin/true''])) = None \<and>
   child_runs (run_events ex_world (snd run_disabled)) =
     [(cmdToExecute (ex_ce [''/bin/true'']), None)] \<and>
   fst run_disabled = None"
proof -
  have run: "Execute env_disabled_child_fails (ex_ce [''/bin/false'']) ex_world =
      (fst run_disabled_child_fails, snd run_disabled_child_fails)"
    by (simp add: run_disabled_child_fails_def)
  have dis: "\<not> fst (isSELinuxEnabled env_disabled_child_fails ex_world)"
    by (simp add: isSELinuxEnabled_def NewSELinux_call_def env_disabled_child_fails_def ex_env_def)
  have ans: "NewSELinux_answer env_disabled_child_fails ex_world = (False, None)"
    by (simp add: env_disabled_child_fails_def ex_env_def)
  have rc: "Run_answer env_disabled_child_fails
     (preventFDLeakOntoChild (log_event (NewSELinux False None) ex_world))
     (cmdToExecute (ex_ce [''/bin/false''])) = Some ''exit status 1''"
    by (simp add: env_disabled_child_fails_def ex_env_def)
  note t = Execute_disabled [OF run dis ans refl rc [symmetric]]
  from t have evs: "run_events ex_world (snd run_disabled_child_fails) =
     NewSELinux False None # map CloseOnExec [3..255]
       @ [CmdRun (cmdToExecute (ex_ce [''/bin/false''])) (Some ''exit status 1'')]"
    by (elim conjE)
  from t have sets: "label_sets (run_events ex_world (snd run_disabled_child_fails)) = []"
    by (elim conjE)
  from t have fd: "fds (snd run_disabled_child_fails) fd =
      (if 3 \<le> fd \<and> fd \<le> 255 \<and> fds ex_world fd \<noteq> None then Some True else fds ex_world fd)"
    for fd
    by (elim conjE) simp
  have fd2: "fds (snd run_disabled_child_fails) 2 = Some False"
    and fd3: "fds (snd run_disabled_child_fails) 3 = Some True"
    and fd4: "fds (snd run_disabled_child_fails) 4 = None"
    and fd256: "fds (snd run_disabled_child_fails) 256 = Some False"
    by (simp_all add: fd fds_ex_world)
  from t have "fst run_disabled_child_fails =
      map_option (ChildExecutionError (pid (ex_ce [''/bin/false'']))) (Some ''exit status 1'')"
    by (elim conjE)
  then have res: "fst run_disabled_child_fails =
      Some ''failed to execute command in launcher namespace 42: exit status 1''"
    by (simp add: ex_ce_def fmt_defs)
  have run': "Execute env_disabled (ex_ce [''/bin/true'']) ex_world =
      (fst run_disabled, snd run_disabled)"
    by (simp add: run_disabled_def)
  have dis': "\<not> fst (isSELinuxEnabled env_disabled ex_world)"
    by (simp add: isSELinuxEnabled_def NewSELinux_call_def env_disabled_def ex_env_def)
  have ans': "NewSELinux_answer env_disabled ex_world = (False, None)"
    by (simp add: env_disabled_def ex_env_def)
  have rc': "Run_answer env_disabled
     (preventFDLeakOntoChild (log_event (NewSELinux False None) ex_world))
     (cmdToExecute (ex_ce [''/bin/true''])) = None"
    by (simp add: env_disabled_def ex_env_def)
  note t' = Execute_disabled [OF run' dis' ans' refl rc' [symmetric]]
  from t' have "run_events ex_world (snd run_disabled) =
     NewSELinux False None # map CloseOnExec [3..255]
       @ [CmdRun (cmdToExecute (ex_ce [''/bin/true''])) None]"
    by (elim conjE)
  then have child': "child_runs (run_events ex_world (snd run_disabled)) =
      [(cmdToExecute (ex_ce [''/bin/true'']), None)]"
    by (simp del: upto_rec_numeral)
  from t' have "fst run_disabled =
      map_option (ChildExecutionError (pid (ex_ce [''/bin/true'']))) None"
    by (elim conjE)
  then have res': "fst run_disabled = None"
    by simp
  from dis ans rc evs sets fd2 fd3 fd4 fd256 res dis' rc' child' res' show ?thesis
    by (intro conjI)
qed

subsection \<open>C5: construction is all or nothing\<close>

text \<open>
  C5: for every call \<open>NewContextExecutor pid cmd\<close>, if the read of the target's label
  or the read of the caller's own label fails, no executor is produced: the pointer is
  \<^verbatim>\<open>nil\<close> and the error is the one \<open>getLabelForPID\<close> built from the failed read.
  Otherwise both reads succeeded and the executor holds the label read for \<open>pid\<close> as
  \<open>desiredLabel\<close> and the label read for the caller as \<open>originalLabel\<close>. In
  neither case does the construction call \<^verbatim>\<open>selinux.SetExecLabel\<close>.
\<close>

theorem NewContextExecutor_atomic:
  assumes "NewContextExecutor env p cmd w = ((ce, err), w')"
  shows "label_sets (run_events w w') = [] \<and>
         (if \<exists>path l e. (path, l, Some e) \<in> set (label_reads (run_events w w'))
          then ce = None \<and>
               (\<exists>q l e. (attr_current_path q, l, Some e) \<in> set (label_reads (run_events w w')) \<and>
                        err = Some (LabelUnavailable q e))
          else \<exists>d orig.
                 label_reads (run_events w w') =
                   [(attr_current_path p, d, None), (attr_current_path (os_Getpid env), orig, None)] \<and>
                 ce = Some \<lparr>cmdToExecute = cmd, desiredLabel = d, originalLabel = orig, pid = p\<rparr> \<and>
                 err = None)"
proof -
  from NewContextExecutor_shape [OF assms] consider
    (target) l e where
      "run_events w w' = [FileLabel (attr_current_path p) (l, Some e)]"
      "ce = None" "err = Some (LabelUnavailable p e)"
  | (own) d l e where
      "run_events w w' =
         [FileLabel (attr_current_path p) (d, None),
          FileLabel (attr_current_path (os_Getpid env)) (l, Some e)]"
      "ce = None" "err = Some (LabelUnavailable (os_Getpid env) e)"
  | (both) d orig where
      "run_events w w' =
         [FileLabel (attr_current_path p) (d, None),
          FileLabel (attr_current_path (os_Getpid env)) (orig, None)]"
      "ce = Some \<lparr>cmdToExecute = cmd, desiredLabel = d, originalLabel = orig, pid = p\<rparr>"
      "err = None"
    by blast
  then show ?thesis
  proof cases
    case target
    then show ?thesis by auto
  next
    case own
    then show ?thesis by auto
  next
    case both
    then show ?thesis by simp
  qed
qed

text \<open>A process that does not exist (scenario C of the specification), and the process 42.\<close>

theorem NewContextExecutor_atomic_witness:
  "label_sets (run_events ex_world (snd new_for_99)) = [] \<and>
   (\<exists>path l e. (path, l, Some e) \<in> set (label_reads (run_events ex_world (snd new_for_99)))) \<and>
   fst new_for_99 =
     (None, Some ''could not retrieve pid 99 selinux label: no such file or directory'') \<and>
   label_sets (run_events ex_world (snd new_for_42)) = [] \<and>
   \<not> (\<exists>path l e. (path, l, Some e) \<in> set (label_reads (run_events ex_world (snd new_for_42)))) \<and>
   fst new_for_42 =
     (Some \<lparr>cmdToExecute = [''/bin/true''], desiredLabel = ''ctx_b'', originalLabel = ''ctx_a'',
            pid = 42\<rparr>, None)"
proof -
  have run99: "NewContextExecutor env_disabled 99 [''/bin/true''] ex_world =
      ((fst (fst new_for_99), snd (fst new_for_99)), snd new_for_99)"
    by (simp add: new_for_99_def)
  have run42: "NewContextExecutor env_disabled 42 [''/bin/true''] ex_world =
      ((fst (fst new_for_42), snd (fst new_for_42)), snd new_for_42)"
    by (simp add: new_for_42_def)
  from NewContextExecutor_atomic [OF run99] NewContextExecutor_atomic [OF run42]
  show ?thesis
    by (simp add: events_new_for_99 events_new_for_42)
qed

subsection \<open>C6: descriptor hygiene\<close>

text \<open>
  C6 says that descriptor hygiene marks the descriptors 3 to 255 in every \<open>Execute\<close>
  invocation. That fails when the label switch fails: \<open>Execute\<close> returns the switch
  error before \<open>preventFDLeakOntoChild\<close> is reached. In the run \<open>run_switch_fails\<close>
  no descriptor is marked, and descriptor 3, which is open, is not close-on-exec
  afterwards.
\<close>

theorem hygiene_skipped_on_switch_failure:
  "fst run_switch_fails =
     Some ''failed to switch selinux context to ctx_b. Reason: invalid argument'' \<and>
   cloexec_calls (run_events ex_world (snd run_switch_fails)) = [] \<and>
   fds ex_world 3 = Some False \<and>
   fds (snd run_switch_fails) 3 = Some False"
  by (simp add: events_run_switch_fails fds_run_switch_fails fds_ex_world)

text \<open>
  C6 as amended: in every \<open>Execute\<close> invocation in which the label switch does not fail
  (MAC is disabled, or the label-set call of the switch succeeds), descriptor hygiene
  marks every file descriptor number in the range from 3 to 255 as close-on-exec, never
  marks the descriptors 0, 1 or 2, and never fails. In the run, \<^verbatim>\<open>syscall.CloseOnExec\<close>
  is called on 3 to 255, once each and on no other number, before the child is run.
  After \<open>Execute\<close> every descriptor in the range that was open is close-on-exec, a number
  that was not open is still not open, and the descriptors outside the range are as
  they were. The same holds of \<open>preventFDLeakOntoChild\<close> on its own, in any world \<open>u\<close>;
  it has no error result and its loop ends.
\<close>

theorem Execute_hygiene:
  assumes "Execute env ce w = (r, w')"
    and "\<not> fst (isSELinuxEnabled env w) \<or>
         (\<exists>l rest. label_sets (run_events w w') = (l, None) # rest)"
  shows "(\<exists>pre rc post.
            run_events w w' =
              pre @ map CloseOnExec [3..255] @ CmdRun (cmdToExecute ce) rc # post \<and>
            cloexec_calls pre = [] \<and> child_runs pre = [] \<and> cloexec_calls post = []) \<and>
         cloexec_calls (run_events w w') = [3..255] \<and>
         (\<forall>fd. fds w' fd =
            (if 3 \<le> fd \<and> fd \<le> 255 \<and> fds w fd \<noteq> None then Some True else fds w fd)) \<and>
         cloexec_calls (run_events u (preventFDLeakOntoChild u)) = [3..255] \<and>
         (\<forall>fd. fds (preventFDLeakOntoChild u) fd =
            (if 3 \<le> fd \<and> fd \<le> 255 \<and> fds u fd \<noteq> None then Some True else fds u fd))"
proof -
  from Execute_shape [OF assms(1)] assms(2) consider
    (off) b err rc where "run_events w w' =
        [NewSELinux b err] @ map CloseOnExec [3..255] @ CmdRun (cmdToExecute ce) rc # []"
  | (switched) rc rr where "run_events w w' =
        [NewSELinux True None, LockOSThread, SetExecLabel (desiredLabel ce) None]
          @ map CloseOnExec [3..255]
          @ CmdRun (cmdToExecute ce) rc # [SetExecLabel (originalLabel ce) rr, UnlockOSThread]"
    by (auto simp del: upto_rec_numeral)
  then have shape: "\<exists>pre rc post.
            run_events w w' =
              pre @ map CloseOnExec [3..255] @ CmdRun (cmdToExecute ce) rc # post \<and>
            cloexec_calls pre = [] \<and> child_runs pre = [] \<and> cloexec_calls post = []"
  proof cases
    case off
    show ?thesis
      by (rule exI [of _ "[NewSELinux b err]"], rule exI [of _ rc], rule exI [of _ "[]"])
         (simp add: off del: upto_rec_numeral)
  next
    case switched
    show ?thesis
      by (rule exI [of _ "[NewSELinux True None, LockOSThread, SetExecLabel (desiredLabel ce) None]"],
          rule exI [of _ rc],
          rule exI [of _ "[SetExecLabel (originalLabel ce) rr, UnlockOSThread]"])
         (simp add: switched del: upto_rec_numeral)
  qed
  then obtain pre rc post where evs: "run_events w w' =
      pre @ map CloseOnExec [3..255] @ CmdRun (cmdToExecute ce) rc # post"
    and pre: "cloexec_calls pre = []" and post: "cloexec_calls post = []"
    by blast
  from evs pre post have calls: "cloexec_calls (run_events w w') = [3..255]"
    by (simp del: upto_rec_numeral)
  from evs have "child_runs (run_events w w') \<noteq> []"
    by (simp del: upto_rec_numeral)
  with fds_Execute [OF assms(1)] have "\<forall>fd. fds w' fd =
      (if 3 \<le> fd \<and> fd \<le> 255 \<and> fds w fd \<noteq> None then Some True else fds w fd)"
    by simp
  with shape calls show ?thesis
    by (simp add: run_events_def trace_preventFDLeakOntoChild fds_preventFDLeakOntoChild
          del: upto_rec_numeral)
qed

text \<open>
  A run with MAC disabled and a run with a successful switch. In both, descriptor 2
  keeps its flag, the open descriptor 3 is marked, the number 4, not open, stays so, and
  descriptor 256 keeps its flag.
\<close>

theorem Execute_hygiene_witness:
  "\<not> fst (isSELinuxEnabled env_disabled ex_world) \<and>
   cloexec_calls (run_events ex_world (snd run_disabled)) = [3..255] \<and>
   fds ex_world 2 = Some False \<and> fds (snd run_disabled) 2 = Some False \<and>
   fds ex_world 3 = Some False \<and> fds (snd run_disabled) 3 = Some True \<and>
   fds ex_world 4 = None \<and> fds (snd run_disabled) 4 = None \<and>
   fds ex_world 256 = Some False \<and> fds (snd run_disabled) 256 = Some False \<and>
   label_sets (run_events ex_world (snd run_child_fails)) = (''ctx_b'', None) # [(''ctx_a'', None)] \<and>
   cloexec_calls (run_events ex_world (snd run_child_fails)) = [3..255] \<and>
   fds (snd run_child_fails) 2 = Some False \<and>
   fds (snd run_child_fails) 3 = Some True \<and>
   fds (snd run_child_fails) 4 = None \<and>
   fds (snd run_child_fails) 256 = Some False"
proof -
  have run: "Execute env_disabled (ex_ce [''/bin/true'']) ex_world =
      (fst run_disabled, snd run_disabled)"
    by (simp add: run_disabled_def)
  have dis: "\<not> fst (isSELinuxEnabled env_disabled ex_world)"
    by (simp add: isSELinuxEnabled_def NewSELinux_call_def env_disabled_def ex_env_def)
  have run': "Execute env_child_fails (ex_ce [''/bin/false'']) ex_world =
      (fst run_child_fails, snd run_child_fails)"
    by (simp add: run_child_fails_def)
  have sets: "label_sets (run_events ex_world (snd run_child_fails)) =
      (''ctx_b'', None) # [(''ctx_a'', None)]"
    by (simp add: events_run_child_fails)
  then have sw: "\<exists>l rest. label_sets (run_events ex_world (snd run_child_fails)) = (l, None) # rest"
    by blast
  note off = Execute_hygiene [OF run disjI1 [OF dis], where u = ex_world]
  note on = Execute_hygiene [OF run' disjI2 [OF sw], where u = ex_world]
  from off have c1: "cloexec_calls (run_events ex_world (snd run_disabled)) = [3..255]"
    by (elim conjE)
  from on have c2: "cloexec_calls (run_events ex_world (snd run_child_fails)) = [3..255]"
    by (elim conjE)
  from off have f1: "fds (snd run_disabled) fd =
      (if 3 \<le> fd \<and> fd \<le> 255 \<and> fds ex_world fd \<noteq> None then Some True else fds ex_world fd)"
    for fd
    by (elim conjE) simp
  from on have f2: "fds (snd run_child_fails) fd =
      (if 3 \<le> fd \<and> fd \<le> 255 \<and> fds ex_world fd \<noteq> None then Some True else fds ex_world fd)"
    for fd
    by (elim conjE) simp
  show ?thesis
    using dis c1 c2 sets by (simp add: f1 f2 fds_ex_world del: upto_rec_numeral)
qed

subsection \<open>C7: the thread binding\<close>

text \<open>
  C7: in every \<open>Execute\<close> invocation in which MAC is enabled, the thread is bound
  (\<^verbatim>\<open>runtime.LockOSThread\<close>) immediately before the label-set call of the switch. When
  that call fails the run ends there. When it succeeds, whatever the result \<open>rc\<close> of
  the child and the result \<open>rr\<close> of the restoring label-set call, the binding is
  released (\<^verbatim>\<open>runtime.UnlockOSThread\<close>) exactly once, as the last step of the run,
  directly after the restoring label-set call.
\<close>

theorem Execute_thread_binding:
  assumes "Execute env ce w = (r, w')"
    and "fst (isSELinuxEnabled env w)"
  shows "(\<exists>e. run_events w w' =
            [NewSELinux True None, LockOSThread, SetExecLabel (desiredLabel ce) (Some e)])
       \<or> (\<exists>rc rr. run_events w w' =
            [NewSELinux True None, LockOSThread, SetExecLabel (desiredLabel ce) None]
              @ map CloseOnExec [3..255]
              @ [CmdRun (cmdToExecute ce) rc, SetExecLabel (originalLabel ce) rr, UnlockOSThread])"
  using Execute_shape [OF assms(1)] assms(2) by auto

text \<open>A run in which the restoring label-set call fails: the thread is released all the same.\<close>

theorem Execute_thread_binding_witness:
  "fst (isSELinuxEnabled env_restore_fails ex_world) \<and>
   run_events ex_world (snd run_restore_fails) =
     [NewSELinux True None, LockOSThread, SetExecLabel ''ctx_b'' None]
       @ map CloseOnExec [3..255]
       @ [CmdRun [''/bin/true''] None, SetExecLabel ''ctx_a'' (Some ''permission denied''),
          UnlockOSThread] \<and>
   ((\<exists>e. run_events ex_world (snd run_restore_fails) =
       [NewSELinux True None, LockOSThread,
        SetExecLabel (desiredLabel (ex_ce [''/bin/true''])) (Some e)])
    \<or> (\<exists>rc rr. run_events ex_world (snd run_restore_fails) =
       [NewSELinux True None, LockOSThread, SetExecLabel (desiredLabel (ex_ce [''/bin/true''])) None]
         @ map CloseOnExec [3..255]
         @ [CmdRun (cmdToExecute (ex_ce [''/bin/true''])) rc,
            SetExecLabel (originalLabel (ex_ce [''/bin/true''])) rr, UnlockOSThread]))"
proof -
  have run: "Execute env_restore_fails (ex_ce [''/bin/true'']) ex_world =
      (fst run_restore_fails, snd run_restore_fails)"
    by (simp add: run_restore_fails_def)
  have en: "fst (isSELinuxEnabled env_restore_fails ex_world)"
    by (simp add: isSELinuxEnabled_def NewSELinux_call_def env_restore_fails_def ex_env_def)
  from Execute_thread_binding [OF run en] en events_run_restore_fails(2) show ?thesis
    by blast
qed

subsection \<open>C8: the probe swallows the initialisation error\<close>

text \<open>
  C8: when \<^verbatim>\<open>NewSELinux\<close> returns an error, \<open>isSELinuxEnabled\<close> returns false,
  whatever the flag returned with the error; \<open>Execute\<close> then makes no label-set call,
  runs the child after the descriptor hygiene, and its result is the child's result, so
  the error of the probe is never the result of \<open>Execute\<close>.
\<close>

theorem isSELinuxEnabled_swallows_error:
  assumes "NewSELinux_answer env w = (b, Some e)"
  shows "\<not> fst (isSELinuxEnabled env w) \<and>
         (\<exists>rc. run_events w (snd (Execute env ce w)) =
                  NewSELinux b (Some e) # map CloseOnExec [3..255]
                    @ [CmdRun (cmdToExecute ce) rc] \<and>
                fst (Execute env ce w) = map_option (ChildExecutionError (pid ce)) rc)"
proof -
  from assms have dis: "\<not> fst (isSELinuxEnabled env w)"
    by (simp add: isSELinuxEnabled_def NewSELinux_call_def)
  have "Execute env ce w = (fst (Execute env ce w), snd (Execute env ce w))"
    by simp
  from Execute_shape [OF this] dis assms show ?thesis
    by auto
qed

theorem isSELinuxEnabled_swallows_error_witness:
  "NewSELinux_answer env_no_selinux ex_world = (False, Some ''selinux is not available'') \<and>
   \<not> fst (isSELinuxEnabled env_no_selinux ex_world) \<and>
   (\<exists>rc. run_events ex_world (snd run_no_selinux) =
            NewSELinux False (Some ''selinux is not available'') # map CloseOnExec [3..255]
              @ [CmdRun (cmdToExecute (ex_ce [''/bin/true''])) rc] \<and>
          fst run_no_selinux = map_option (ChildExecutionError (pid (ex_ce [''/bin/true'']))) rc) \<and>
   fst run_no_selinux = None"
proof -
  have ans: "NewSELinux_answer env_no_selinux ex_world = (False, Some ''selinux is not available'')"
    by (simp add: env_no_selinux_def ex_env_def)
  from isSELinuxEnabled_swallows_error [OF ans, of "ex_ce [''/bin/true'']"] ans
  show ?thesis
    by (simp add: run_no_selinux_def [symmetric] events_run_no_selinux(1))
qed

subsection \<open>C9: the number of label reads\<close>

text \<open>
  C9 says that every call of \<open>NewContextExecutor\<close> invokes the label resolver exactly
  twice. That fails when the target's label cannot be read: the construction for the
  process 99, which does not exist, reads one label file and returns.
\<close>

theorem resolver_invoked_once_for_missing_target:
  "label_reads (run_events ex_world (snd new_for_99)) =
     [(''/proc/99/attr/current'', [], Some ''no such file or directory'')] \<and>
   length (label_reads (run_events ex_world (snd new_for_99))) = 1"
  by (simp add: events_new_for_99)

text \<open>
  C9 as amended: for every call of \<open>NewContextExecutor\<close> in which the resolution of the
  target's label succeeds, the label resolver is invoked exactly twice, without caching:
  once for the target process id and then once for the caller's own process id. Each
  invocation is a read of the label file, and the second read is answered by the
  environment as it is after the first (\<open>w1\<close>), also when both ids are the same.
\<close>

theorem NewContextExecutor_two_fresh_reads:
  assumes "FileLabel_answer env w (attr_current_path p) = (d, None)"
    and "w1 = log_event (FileLabel (attr_current_path p) (d, None)) w"
  shows "run_events w (snd (NewContextExecutor env p cmd w)) =
           [FileLabel (attr_current_path p) (d, None),
            FileLabel (attr_current_path (os_Getpid env))
              (FileLabel_answer env w1 (attr_current_path (os_Getpid env)))] \<and>
         length (label_reads (run_events w (snd (NewContextExecutor env p cmd w)))) = 2"
  using assms
  by (simp add: NewContextExecutor_unfold run_events_def split: prod.splits option.splits)

text \<open>
  The caller constructs an executor for itself while its label changes: the same file is
  read twice and the two reads give different labels.
\<close>

theorem NewContextExecutor_two_fresh_reads_witness:
  "FileLabel_answer env_relabel ex_world (attr_current_path 7) = (''ctx_a'', None) \<and>
   run_events ex_world (snd new_relabel) =
     [FileLabel ''/proc/7/attr/current'' (''ctx_a'', None),
      FileLabel ''/proc/7/attr/current'' (''ctx_c'', None)] \<and>
   length (label_reads (run_events ex_world (snd new_relabel))) = 2"
proof -
  have ans: "FileLabel_answer env_relabel ex_world (attr_current_path 7) = (''ctx_a'', None)"
    by (simp add: env_relabel_def ex_env_def relabel_FileLabel_def ex_world_def)
  from NewContextExecutor_two_fresh_reads [OF ans refl, of "[''/bin/true'']"] ans
  show ?thesis
    by (simp add: new_relabel_def [symmetric])
       (simp add: env_relabel_def ex_env_def relabel_FileLabel_def fmt_defs)
qed

subsection \<open>C10: the reads are sequential and short-circuit\<close>

text \<open>
  C10: in \<open>NewContextExecutor\<close> the target's label is resolved first; if that read
  fails with \<open>e\<close>, the result is \<^verbatim>\<open>nil\<close> together with the error built from \<open>e\<close> for
  the target's process id, and the run consists of that one read: the caller's own label
  is never resolved.
\<close>

theorem NewContextExecutor_short_circuit:
  assumes "FileLabel_answer env w (attr_current_path p) = (l, Some e)"
  shows "fst (NewContextExecutor env p cmd w) = (None, Some (LabelUnavailable p e)) \<and>
         run_events w (snd (NewContextExecutor env p cmd w)) =
           [FileLabel (attr_current_path p) (l, Some e)] \<and>
         length (label_reads (run_events w (snd (NewContextExecutor env p cmd w)))) = 1"
  using assms
  by (simp add: NewContextExecutor_unfold run_events_def)

theorem NewContextExecutor_short_circuit_witness:
  "FileLabel_answer env_disabled ex_world (attr_current_path 99) =
     ([], Some ''no such file or directory'') \<and>
   fst new_for_99 =
     (None, Some ''could not retrieve pid 99 selinux label: no such file or directory'') \<and>
   run_events ex_world (snd new_for_99) =
     [FileLabel ''/proc/99/attr/current'' ([], Some ''no such file or directory'')] \<and>
   length (label_reads (run_events ex_world (snd new_for_99))) = 1"
proof -
  have ans: "FileLabel_answer env_disabled ex_world (attr_current_path 99) =
      ([], Some ''no such file or directory'')"
    by (simp add: env_disabled_def ex_defs fmt_defs)
  from NewContextExecutor_short_circuit [OF ans, of "[''/bin/true'']"] ans
  show ?thesis
    by (simp add: new_for_99_def [symmetric]) (simp add: fmt_defs)
qed

end
